theory Spec2Isabelle
  imports Complex_Main
begin

section \<open>The event recorder adapter (utils/record/record.go)\<close>

subsection \<open>Data\<close>

text \<open>
  \<open>EventOptions\<close> is the struct of the source. The two event types are the
  constants \<open>corev1.EventTypeNormal\<close> and \<open>corev1.EventTypeWarning\<close> of the
  Kubernetes API.
\<close>

record EventOptions =
  EventType :: string
  EventReason :: string

definition EventTypeNormal :: string where
  "EventTypeNormal = ''Normal''"

definition EventTypeWarning :: string where
  "EventTypeWarning = ''Warning''"

text \<open>
  The adapter writes to three places: the Kubernetes recorder (\<open>e.Recorder.Eventf\<close>),
  the counter vector \<open>e.RolloutEventCounter\<close> and the logger. Each is a component of
  the \<open>world\<close>: the list of calls received by the recorder, the count stored under each
  list of label values, and the lines logged so far. The counter vector has four labels, as
  the one that \<open>NewFakeEventRecorder\<close> creates, and \<open>eventf\<close> passes four label values.
  The fields of a log entry are a map from field names to values. \<open>sent\<close> holds the notifications
  that the notifications API delivered. A runtime object is any value of type \<open>'obj\<close>;
  a format string and its arguments are kept as they are passed.
\<close>

record 'obj k8s_event =
  ev_object :: 'obj
  ev_type :: string
  ev_reason :: string
  ev_messageFmt :: string
  ev_args :: "string list"

datatype log_level = Info | Warn | Error

type_synonym log_fields = "string \<rightharpoonup> string"

record log_line =
  ll_level :: log_level
  ll_fields :: log_fields
  ll_messageFmt :: string
  ll_args :: "string list"

type_synonym destination = "string \<times> string"

record ('obj, 'objmap) world =
  recorded :: "'obj k8s_event list"
  counter :: "string list \<Rightarrow> nat"
  logged :: "log_line list"
  sent :: "('objmap \<times> string list \<times> destination) list"

text \<open>
  The notifications API handed out by the factory: the configured triggers (for each
  trigger name the \<open>Send\<close> template list of each of its conditions, in order) and the
  outcome of \<open>Send\<close>, \<open>None\<close> for success and \<open>Some msg\<close> for an error with that text.
\<close>

record 'objmap notifications_api =
  Triggers :: "(string \<times> string list list) list"
  Send :: "'objmap \<Rightarrow> string list \<Rightarrow> destination \<Rightarrow> string option"

text \<open>
  \<open>EventRecorderAdapter\<close>. The recorder and the counter are the first two components
  of the world; the adapter itself holds the API factory. \<open>apiFactory = None\<close> is the
  nil factory that \<open>NewFakeEventRecorder\<close> passes; otherwise \<open>GetAPI\<close> returns an
  error text (\<open>Inl\<close>) or an API.
\<close>

record 'objmap EventRecorderAdapter =
  apiFactory :: "(string + 'objmap notifications_api) option"

text \<open>
  Functions of other packages that the file calls and that are not part of it:
  \<open>logutil.WithObject\<close> and \<open>logutil.KindNamespaceName\<close> (package utils/log),
  the annotations of an object (\<open>None\<close> when the object is not a \<open>metav1.Object\<close>, so
  that the type assertion panics), \<open>subscriptions.Annotations(...).GetDestinations\<close>,
  and \<open>json.Marshal\<close> followed by \<open>json.Unmarshal\<close>. They are parameters.
\<close>

record ('obj, 'objmap) deps =
  WithObject :: "'obj \<Rightarrow> log_fields"
  KindNamespaceName :: "log_fields \<Rightarrow> string \<times> string \<times> string"
  GetAnnotations :: "'obj \<Rightarrow> (string \<times> string) list option"
  GetDestinations :: "(string \<times> string) list \<Rightarrow> string \<Rightarrow> destination list"
  Marshal :: "'obj \<Rightarrow> string + string"
  Unmarshal :: "string \<Rightarrow> string + 'objmap"

subsection \<open>Eventf, Warnf and eventf\<close>

definition WithField :: "log_fields \<Rightarrow> string \<Rightarrow> string \<Rightarrow> log_fields" where
  "WithField logCtx k v = logCtx(k \<mapsto> v)"

definition Recorder_Eventf ::
  "'obj \<Rightarrow> string \<Rightarrow> string \<Rightarrow> string \<Rightarrow> string list \<Rightarrow> ('obj, 'm) world \<Rightarrow> ('obj, 'm) world" where
  "Recorder_Eventf object eventtype reason messageFmt args w =
     w\<lparr>recorded := recorded w @
        [\<lparr>ev_object = object, ev_type = eventtype, ev_reason = reason,
          ev_messageFmt = messageFmt, ev_args = args\<rparr>]\<rparr>"

definition Counter_Inc :: "string list \<Rightarrow> ('obj, 'm) world \<Rightarrow> ('obj, 'm) world" where
  "Counter_Inc lvs w = w\<lparr>counter := (counter w)(lvs := Suc (counter w lvs))\<rparr>"

definition logFn ::
  "log_level \<Rightarrow> log_fields \<Rightarrow> string \<Rightarrow> string list \<Rightarrow> ('obj, 'm) world \<Rightarrow> ('obj, 'm) world" where
  "logFn lvl logCtx messageFmt args w =
     w\<lparr>logged := logged w @
        [\<lparr>ll_level = lvl, ll_fields = logCtx, ll_messageFmt = messageFmt, ll_args = args\<rparr>]\<rparr>"

definition eventf ::
  "('obj, 'm) deps \<Rightarrow> 'm EventRecorderAdapter \<Rightarrow> 'obj \<Rightarrow> bool \<Rightarrow> EventOptions \<Rightarrow> string \<Rightarrow>
   string list \<Rightarrow> ('obj, 'm) world \<Rightarrow> ('obj, 'm) world" where
  "eventf d e object warn opts messageFmt args w =
     (let logCtx0 = WithObject d object;
          (logCtx, w1) =
            (if EventReason opts \<noteq> [] then
               (let logCtx1 = WithField logCtx0 ''event_reason'' (EventReason opts);
                    wr = Recorder_Eventf object (EventType opts) (EventReason opts) messageFmt args w;
                    (kind, namespace, name) = KindNamespaceName d logCtx1
                in (logCtx1,
                    if kind = ''Rollout''
                    then Counter_Inc [namespace, name, EventType opts, EventReason opts] wr
                    else wr))
             else (logCtx0, w))
      in logFn (if warn then Warn else Info) logCtx messageFmt args w1)"

definition Eventf ::
  "('obj, 'm) deps \<Rightarrow> 'm EventRecorderAdapter \<Rightarrow> 'obj \<Rightarrow> EventOptions \<Rightarrow> string \<Rightarrow>
   string list \<Rightarrow> ('obj, 'm) world \<Rightarrow> ('obj, 'm) world" where
  "Eventf d e object opts messageFmt args w =
     (let opts1 = (if EventType opts = [] then opts\<lparr>EventType := EventTypeNormal\<rparr> else opts)
      in eventf d e object (EventType opts1 = EventTypeWarning) opts1 messageFmt args w)"

definition Warnf ::
  "('obj, 'm) deps \<Rightarrow> 'm EventRecorderAdapter \<Rightarrow> 'obj \<Rightarrow> EventOptions \<Rightarrow> string \<Rightarrow>
   string list \<Rightarrow> ('obj, 'm) world \<Rightarrow> ('obj, 'm) world" where
  "Warnf d e object opts messageFmt args w =
     eventf d e object True (opts\<lparr>EventType := EventTypeWarning\<rparr>) messageFmt args w"

subsection \<open>The built-in triggers and their reverse map\<close>

text \<open>
  The four event reasons are constants of package utils/conditions, which is not part of
  the file; they are the fields of \<open>reasons\<close>. A Go map literal is the list of its
  entries; \<open>range\<close> visits the entries in an order that the language leaves open, so
  \<open>reverseMap\<close> takes the entries in the order of the visit.
\<close>

record reasons =
  RolloutCompletedReason :: string
  RolloutStepCompletedReason :: string
  ScalingReplicaSetReason :: string
  RolloutUpdatedReason :: string

definition BuiltInTriggers :: "reasons \<Rightarrow> (string \<times> string) list" where
  "BuiltInTriggers c =
     [(''on-completed'', RolloutCompletedReason c),
      (''on-step-completed'', RolloutStepCompletedReason c),
      (''on-scaling-replicaset'', ScalingReplicaSetReason c),
      (''on-update'', RolloutUpdatedReason c)]"

fun reverseMap_loop :: "(string \<times> string) list \<Rightarrow> (string \<rightharpoonup> string) \<Rightarrow> (string \<rightharpoonup> string)" where
  "reverseMap_loop [] n = n"
| "reverseMap_loop ((k, v) # m) n = reverseMap_loop m (n(v \<mapsto> k))"

definition reverseMap :: "(string \<times> string) list \<Rightarrow> (string \<rightharpoonup> string)" where
  "reverseMap m = reverseMap_loop m Map.empty"

definition EventReasonToTrigger :: "reasons \<Rightarrow> (string \<rightharpoonup> string)" where
  "EventReasonToTrigger c = reverseMap (BuiltInTriggers c)"

subsection \<open>sendNotifications\<close>

text \<open>
  A call either panics (a failed type assertion, a nil factory, an index out of range)
  or returns an error value, nil being \<open>None\<close>. The error value carries the text of
  the Go error and is tagged with the call that produced it.
\<close>

datatype error =
    GetAPIError string
  | MarshalError string
  | UnmarshalError string
  | SendError string

datatype outcome = Panic | Returned "error option"

fun templates_loop ::
  "reasons \<Rightarrow> (string \<times> string list list) list \<Rightarrow> (string \<rightharpoonup> string list) \<Rightarrow>
   (string \<rightharpoonup> string list) option" where
  "templates_loop c [] templates = Some templates"
| "templates_loop c ((name, triggers) # rest) templates =
     (if map_of (BuiltInTriggers c) name \<noteq> None then
        (case triggers of
           [] \<Rightarrow> None
         | t # _ \<Rightarrow> templates_loop c rest (templates(name \<mapsto> t)))
      else templates_loop c rest templates)"

fun send_loop ::
  "'m notifications_api \<Rightarrow> 'm \<Rightarrow> string list \<Rightarrow> destination list \<Rightarrow> ('obj, 'm) world \<Rightarrow>
   outcome \<times> ('obj, 'm) world" where
  "send_loop api objMap tmpl [] w = (Returned None, w)"
| "send_loop api objMap tmpl (dest # dests) w =
     (case Send api objMap tmpl dest of
        Some err \<Rightarrow>
          (Returned (Some (SendError err)), logFn Error Map.empty ''notification error: %s'' [err] w)
      | None \<Rightarrow> send_loop api objMap tmpl dests (w\<lparr>sent := sent w @ [(objMap, tmpl, dest)]\<rparr>))"

definition sendNotifications ::
  "reasons \<Rightarrow> ('obj, 'm) deps \<Rightarrow> 'm EventRecorderAdapter \<Rightarrow> 'obj \<Rightarrow> EventOptions \<Rightarrow>
   ('obj, 'm) world \<Rightarrow> outcome \<times> ('obj, 'm) world" where
  "sendNotifications c d e object opts w =
     (case GetAnnotations d object of
        None \<Rightarrow> (Panic, w)
      | Some annotations \<Rightarrow>
          (let destByTrigger = GetDestinations d annotations in
           case EventReasonToTrigger c (EventReason opts) of
             None \<Rightarrow> (Returned None, w)
           | Some trigger \<Rightarrow>
               (let destinations = destByTrigger trigger in
                if length destinations = 0 then (Returned None, w)
                else
                  (case apiFactory e of
                     None \<Rightarrow> (Panic, w)
                   | Some (Inl err) \<Rightarrow> (Returned (Some (GetAPIError err)), w)
                   | Some (Inr notificationsAPI) \<Rightarrow>
                       (case templates_loop c (Triggers notificationsAPI) Map.empty of
                          None \<Rightarrow> (Panic, w)
                        | Some templates \<Rightarrow>
                            (case Marshal d object of
                               Inl err \<Rightarrow> (Returned (Some (MarshalError err)), w)
                             | Inr objBytes \<Rightarrow>
                                 (case Unmarshal d objBytes of
                                    Inl err \<Rightarrow> (Returned (Some (UnmarshalError err)), w)
                                  | Inr objMap \<Rightarrow>
                                      send_loop notificationsAPI objMap
                                        (case templates trigger of None \<Rightarrow> [] | Some t \<Rightarrow> t)
                                        destinations w)))))))"

section \<open>The reconciliation core\<close>

text \<open>
  The source holds the event recorder and two example manifests; the reconciliation
  engine that the manifests are written for is not part of it. The definitions of this
  section follow the description of the engine, each one naming the sentence it renders.
\<close>

subsection \<open>Rollout specs and the example manifests\<close>

text \<open>
  Modelled from the spec: the step of a canary strategy, a tagged variant of
  SetWeight(percentage), Pause(optional duration; absent = indefinite), AnalysisStep(template
  reference + args) and Experiment(reference). The type declaration is missing from the source.
\<close>

datatype step =
    SetWeight int
  | Pause "nat option"
  | AnalysisStep string "(string \<times> string) list"
  | Experiment string

text \<open>
  Modelled from the spec: the fields of the resource schema that the core consumes,
  \<open>spec.replicas\<close>, the key found under \<open>spec.strategy\<close> and the steps listed under
  that key. The type declaration is missing from the source.
\<close>

record rollout_spec =
  spec_replicas :: int
  spec_strategy :: string
  spec_steps :: "step list"

text \<open>
  The two rollouts of the example manifests: \<open>rollout-ref-deployment\<close> (replicas 5,
  strategy canary, steps setWeight 20 and pause 10s) and \<open>invalid-rollout\<close> (replicas 10,
  strategy key \<open>unknown-strategy\<close>, step setWeight 10).
\<close>

definition rollout_ref_deployment :: rollout_spec where
  "rollout_ref_deployment =
     \<lparr>spec_replicas = 5, spec_strategy = ''canary'',
      spec_steps = [SetWeight 20, Pause (Some 10)]\<rparr>"

definition invalid_rollout :: rollout_spec where
  "invalid_rollout =
     \<lparr>spec_replicas = 10, spec_strategy = ''unknown-strategy'',
      spec_steps = [SetWeight 10]\<rparr>"

text \<open>
  Modelled from the spec: a replica set reference, which identifies a replica set by
  revision hash and current replica count. The type declaration is missing from the source.
\<close>

record ReplicaSetRef =
  rs_revisionHash :: string
  rs_replicas :: int

text \<open>
  Modelled from the spec: the observed status, reduced to the current step index, the
  current weight and the stable and canary replica set references. The type declaration is
  missing from the source.
\<close>

record rollout_status =
  currentStepIndex :: nat
  currentStepWeight :: int
  stableRS :: ReplicaSetRef
  canaryRS :: ReplicaSetRef

subsection \<open>ReplicaSetManager\<close>

text \<open>
  Modelled from the spec: \<open>reconcileReplicaCounts(stable, canary, desiredWeight,
  totalReplicas)\<close>, which is missing from the source. It returns (stableCount, canaryCount)
  with canaryCount = ceil(totalReplicas * desiredWeight / 100) and stableCount =
  totalReplicas - canaryCount.
\<close>

definition reconcileReplicaCounts ::
  "ReplicaSetRef \<Rightarrow> ReplicaSetRef \<Rightarrow> int \<Rightarrow> int \<Rightarrow> int \<times> int" where
  "reconcileReplicaCounts stableRef canaryRef desiredWeight totalReplicas =
     (let canaryCount = \<lceil>real_of_int (totalReplicas * desiredWeight) / 100\<rceil>;
          stableCount = totalReplicas - canaryCount
      in (stableCount, canaryCount))"

text \<open>
  Modelled from the spec: the confirmation of the ReplicaSetManager that the replica counts
  match the weight, which a step needs to count as converged. The function is missing from
  the source. The counts of the two replica sets are the ones computed for the current weight.
\<close>

definition replicaCountsMatch :: "rollout_spec \<Rightarrow> rollout_status \<Rightarrow> bool" where
  "replicaCountsMatch spec st \<longleftrightarrow>
     (rs_replicas (stableRS st), rs_replicas (canaryRS st)) =
       reconcileReplicaCounts (stableRS st) (canaryRS st) (currentStepWeight st) (spec_replicas spec)"

subsection \<open>Validation and the Reconciler\<close>

datatype reconcile_error = ValidationError string

text \<open>
  Modelled from the spec: the validation of a rollout spec, which is missing from the
  source. A spec is malformed when its strategy kind is unknown (neither canary nor
  blueGreen) or a declared weight is outside [0,100].
\<close>

definition validStep :: "step \<Rightarrow> bool" where
  "validStep s = (case s of SetWeight w \<Rightarrow> 0 \<le> w \<and> w \<le> 100 | _ \<Rightarrow> True)"

definition validateRollout :: "rollout_spec \<Rightarrow> reconcile_error option" where
  "validateRollout spec =
     (if spec_strategy spec \<noteq> ''canary'' \<and> spec_strategy spec \<noteq> ''blueGreen''
      then Some (ValidationError ''unknown strategy kind'')
      else if \<not> list_all validStep (spec_steps spec)
      then Some (ValidationError ''weight out of range'')
      else None)"

text \<open>
  Modelled from the spec: the Reconciler, which is missing from the source. It loads the
  spec and status pair, rejects a malformed spec before reconciliation, and otherwise
  invokes the StrategyEngine and persists the status it returns. The StrategyEngine is a
  parameter; the result is the error, if any, and the persisted status.
\<close>

definition Reconciler ::
  "(rollout_spec \<Rightarrow> rollout_status \<Rightarrow> rollout_status) \<Rightarrow> rollout_spec \<Rightarrow> rollout_status \<Rightarrow>
   reconcile_error option \<times> rollout_status" where
  "Reconciler StrategyEngine spec status =
     (case validateRollout spec of
        Some err \<Rightarrow> (Some err, status)
      | None \<Rightarrow> (None, StrategyEngine spec status))"

subsection \<open>TrafficWeightController\<close>

text \<open>
  Modelled from the spec: the traffic-routing capability, which exposes
  \<open>SetWeight(percentage)\<close> with the answers success, pending and error. The declaration
  is missing from the source. A capability is the answer it gives to each percentage.
\<close>

datatype routing_result = Success | Pending | Failure

type_synonym routingCapability = "int \<Rightarrow> routing_result"

text \<open>
  Modelled from the spec: \<open>converge(currentWeight, desiredWeight, routingCapability)\<close>,
  which is missing from the source. It delegates to the capability and returns false if the
  backend call fails or reports that propagation is still pending.
\<close>

definition converge :: "int \<Rightarrow> int \<Rightarrow> routingCapability \<Rightarrow> bool" where
  "converge currentWeight desiredWeight routing \<longleftrightarrow> routing desiredWeight = Success"

text \<open>
  Modelled from the spec: the use that the Reconciler makes of \<open>converge\<close>, which is
  missing from the source. When \<open>converge\<close> returns false the Reconciler requeues rather
  than advance the status; the second component of the result is the requeue request.
\<close>

definition reconcileWeight ::
  "routingCapability \<Rightarrow> int \<Rightarrow> rollout_status \<Rightarrow> rollout_status \<times> bool" where
  "reconcileWeight routing desiredWeight status =
     (if converge (currentStepWeight status) desiredWeight routing
      then (status\<lparr>currentStepWeight := desiredWeight\<rparr>, False)
      else (status, True))"

text \<open>
  A run of reconciles, each with the capability as it answers at that time and the weight
  asked for, and the weight last successfully applied to the capability over such a run,
  read off the answers alone.
\<close>

fun reconcileWeights :: "(routingCapability \<times> int) list \<Rightarrow> rollout_status \<Rightarrow> rollout_status" where
  "reconcileWeights [] status = status"
| "reconcileWeights ((routing, desiredWeight) # calls) status =
     reconcileWeights calls (fst (reconcileWeight routing desiredWeight status))"

fun lastApplied :: "int \<Rightarrow> (routingCapability \<times> int) list \<Rightarrow> int" where
  "lastApplied applied [] = applied"
| "lastApplied applied ((routing, desiredWeight) # calls) =
     lastApplied (if routing desiredWeight = Success then desiredWeight else applied) calls"

section \<open>Example inputs\<close>

definition example_reasons :: reasons where
  "example_reasons = \<lparr>RolloutCompletedReason = ''RolloutCompleted'',
     RolloutStepCompletedReason = ''RolloutStepCompleted'',
     ScalingReplicaSetReason = ''ScalingReplicaSet'',
     RolloutUpdatedReason = ''RolloutUpdated''\<rparr>"

definition example_deps :: "(string, string) deps" where
  "example_deps = \<lparr>WithObject = (\<lambda>object. [''rollout'' \<mapsto> object, ''namespace'' \<mapsto> ''default'']),
     KindNamespaceName = (\<lambda>logCtx. (''Rollout'', ''default'', ''guestbook'')),
     GetAnnotations = (\<lambda>object. Some [(''notifications.argoproj.io/subscribe.on-completed.slack'', ''dev'')]),
     GetDestinations = (\<lambda>annotations trigger.
        if trigger = ''on-completed'' then [(''slack'', ''dev''), (''slack'', ''ops'')] else []),
     Marshal = (\<lambda>object. Inr object),
     Unmarshal = (\<lambda>objBytes. Inr objBytes)\<rparr>"

definition failing_api :: "string notifications_api" where
  "failing_api = \<lparr>Triggers = [(''on-completed'', [[''rollout-completed'']])],
     Send = (\<lambda>objMap tmpl dest. Some ''connection refused'')\<rparr>"

definition example_adapter :: "string EventRecorderAdapter" where
  "example_adapter = \<lparr>apiFactory = Some (Inr failing_api)\<rparr>"

definition flaky_api :: "string notifications_api" where
  "flaky_api = \<lparr>Triggers = [(''on-completed'', [[''rollout-completed'']])],
     Send = (\<lambda>objMap tmpl dest.
        if dest = (''slack'', ''ops'') then Some ''connection refused'' else None)\<rparr>"

definition flaky_adapter :: "string EventRecorderAdapter" where
  "flaky_adapter = \<lparr>apiFactory = Some (Inr flaky_api)\<rparr>"

definition normal_completed_opts :: EventOptions where
  "normal_completed_opts = \<lparr>EventType = ''Normal'', EventReason = ''RolloutCompleted''\<rparr>"

definition empty_world :: "(string, string) world" where
  "empty_world = \<lparr>recorded = [], counter = (\<lambda>lvs. 0), logged = [], sent = []\<rparr>"

definition completed_opts :: EventOptions where
  "completed_opts = \<lparr>EventType = [], EventReason = ''RolloutCompleted''\<rparr>"

definition example_status :: rollout_status where
  "example_status =
     \<lparr>currentStepIndex = 0, currentStepWeight = 20,
      stableRS = \<lparr>rs_revisionHash = ''blue'', rs_replicas = 4\<rparr>,
      canaryRS = \<lparr>rs_revisionHash = ''green'', rs_replicas = 1\<rparr>\<rparr>"

section \<open>Properties of the event recorder adapter\<close>

subsection \<open>What eventf writes\<close>

lemma eventf_no_reason:
  "EventReason opts = [] \<Longrightarrow>
   eventf d e object warn opts messageFmt args w =
     logFn (if warn then Warn else Info) (WithObject d object) messageFmt args w"
  by (simp add: eventf_def)

lemma eventf_logged:
  "logged (eventf d e object warn opts messageFmt args w) =
     logged w @ [\<lparr>ll_level = (if warn then Warn else Info),
                  ll_fields = (if EventReason opts = [] then WithObject d object
                               else (WithObject d object)(''event_reason'' \<mapsto> EventReason opts)),
                  ll_messageFmt = messageFmt, ll_args = args\<rparr>]"
  by (auto simp add: eventf_def logFn_def Recorder_Eventf_def Counter_Inc_def WithField_def Let_def
      split: prod.splits)

lemma eventf_recorded:
  "recorded (eventf d e object warn opts messageFmt args w) =
     recorded w @ (if EventReason opts = [] then []
                   else [\<lparr>ev_object = object, ev_type = EventType opts,
                          ev_reason = EventReason opts,
                          ev_messageFmt = messageFmt, ev_args = args\<rparr>])"
  by (auto simp add: eventf_def logFn_def Recorder_Eventf_def Counter_Inc_def WithField_def Let_def
      split: prod.splits)

lemma eventf_counter:
  "counter (eventf d e object warn opts messageFmt args w) =
     (if EventReason opts \<noteq> [] \<and>
         fst (KindNamespaceName d ((WithObject d object)(''event_reason'' \<mapsto> EventReason opts))) = ''Rollout''
      then (counter w)
             ((case KindNamespaceName d ((WithObject d object)(''event_reason'' \<mapsto> EventReason opts))
                 of (kind, namespace, name) \<Rightarrow> [namespace, name, EventType opts, EventReason opts])
              := Suc (counter w
                 (case KindNamespaceName d ((WithObject d object)(''event_reason'' \<mapsto> EventReason opts))
                 of (kind, namespace, name) \<Rightarrow> [namespace, name, EventType opts, EventReason opts])))
      else counter w)"
  by (auto simp add: eventf_def logFn_def Recorder_Eventf_def Counter_Inc_def WithField_def Let_def
      split: prod.splits)

text \<open>
  Claim C8. A call to \<open>Eventf\<close> with an empty \<open>opts.EventType\<close> records the event
  with type Normal and logs at Info level. A call to \<open>Warnf\<close> records the event with type
  Warning and logs at Warn level, whatever \<open>EventType\<close> the options carry. (An event is
  handed to the recorder only when the reason is not empty; the log line is always written.)
\<close>

theorem Eventf_defaults_Normal_Warnf_forces_Warning:
  "(EventType opts = [] \<longrightarrow>
      recorded (Eventf d e object opts messageFmt args w) =
        recorded w @ (if EventReason opts = [] then []
                      else [\<lparr>ev_object = object, ev_type = ''Normal'',
                             ev_reason = EventReason opts,
                             ev_messageFmt = messageFmt, ev_args = args\<rparr>])
      \<and> (\<exists>l. logged (Eventf d e object opts messageFmt args w) = logged w @ [l]
              \<and> ll_level l = Info \<and> ll_messageFmt l = messageFmt \<and> ll_args l = args))
   \<and> recorded (Warnf d e object opts messageFmt args w) =
        recorded w @ (if EventReason opts = [] then []
                      else [\<lparr>ev_object = object, ev_type = ''Warning'',
                             ev_reason = EventReason opts,
                             ev_messageFmt = messageFmt, ev_args = args\<rparr>])
   \<and> (\<exists>l. logged (Warnf d e object opts messageFmt args w) = logged w @ [l]
           \<and> ll_level l = Warn \<and> ll_messageFmt l = messageFmt \<and> ll_args l = args)"
  by (simp add: Eventf_def Warnf_def eventf_logged eventf_recorded
      EventTypeNormal_def EventTypeWarning_def)

theorem Eventf_defaults_Normal_Warnf_forces_Warning_witness:
  "EventType completed_opts = []
   \<and> recorded (Eventf example_deps example_adapter ''guestbook'' completed_opts
         ''Rollout completed'' [] empty_world) =
       [\<lparr>ev_object = ''guestbook'', ev_type = ''Normal'', ev_reason = ''RolloutCompleted'',
         ev_messageFmt = ''Rollout completed'', ev_args = []\<rparr>]
   \<and> map ll_level (logged (Eventf example_deps example_adapter ''guestbook'' completed_opts
         ''Rollout completed'' [] empty_world)) = [Info]
   \<and> recorded (Warnf example_deps example_adapter ''guestbook''
         (completed_opts\<lparr>EventType := ''Normal''\<rparr>) ''Rollout completed'' [] empty_world) =
       [\<lparr>ev_object = ''guestbook'', ev_type = ''Warning'', ev_reason = ''RolloutCompleted'',
         ev_messageFmt = ''Rollout completed'', ev_args = []\<rparr>]
   \<and> map ll_level (logged (Warnf example_deps example_adapter ''guestbook''
         (completed_opts\<lparr>EventType := ''Normal''\<rparr>) ''Rollout completed'' [] empty_world)) = [Warn]"
proof -
  have t: "EventType completed_opts = []" by (simp add: completed_opts_def)
  have r: "EventReason completed_opts = ''RolloutCompleted''" by (simp add: completed_opts_def)
  have l: "logged empty_world = []" "recorded empty_world = []" by (simp_all add: empty_world_def)
  note a = Eventf_defaults_Normal_Warnf_forces_Warning
    [of completed_opts example_deps example_adapter "''guestbook''" "''Rollout completed''" "[]"
        empty_world]
  note b = Eventf_defaults_Normal_Warnf_forces_Warning
    [of "completed_opts\<lparr>EventType := ''Normal''\<rparr>" example_deps example_adapter "''guestbook''"
        "''Rollout completed''" "[]" empty_world]
  show ?thesis using a b t r l by auto
qed

text \<open>
  Claim C9. A call to \<open>eventf\<close> with an empty \<open>opts.EventReason\<close> hands no event to
  the recorder and leaves the counter as it is: the only effect is one log line. Moreover
  the counter changes only when the reason is not empty and the kind of the object is
  \<open>Rollout\<close>.
\<close>

theorem eventf_empty_reason_only_logs:
  "(EventReason opts = [] \<longrightarrow>
      eventf d e object warn opts messageFmt args w =
        w\<lparr>logged := logged w @
            [\<lparr>ll_level = (if warn then Warn else Info), ll_fields = WithObject d object,
              ll_messageFmt = messageFmt, ll_args = args\<rparr>]\<rparr>)
   \<and> (counter (eventf d e object warn opts messageFmt args w) \<noteq> counter w \<longrightarrow>
        EventReason opts \<noteq> [] \<and>
        fst (KindNamespaceName d
               (WithField (WithObject d object) ''event_reason'' (EventReason opts))) = ''Rollout'')"
  by (auto simp add: eventf_no_reason logFn_def eventf_counter WithField_def)

theorem eventf_empty_reason_only_logs_witness:
  "EventReason \<lparr>EventType = ''Normal'', EventReason = []\<rparr> = []
   \<and> eventf example_deps example_adapter ''guestbook'' False
        \<lparr>EventType = ''Normal'', EventReason = []\<rparr> ''Reconciling'' [] empty_world =
      empty_world\<lparr>logged := [\<lparr>ll_level = Info,
        ll_fields = [''rollout'' \<mapsto> ''guestbook'', ''namespace'' \<mapsto> ''default''],
        ll_messageFmt = ''Reconciling'', ll_args = []\<rparr>]\<rparr>
   \<and> counter (eventf example_deps example_adapter ''guestbook'' False completed_opts
        ''Rollout completed'' [] empty_world) \<noteq> counter empty_world
   \<and> fst (KindNamespaceName example_deps
        (WithField (WithObject example_deps ''guestbook'') ''event_reason''
           (EventReason completed_opts))) = ''Rollout''"
proof -
  have c: "counter (eventf example_deps example_adapter ''guestbook'' False completed_opts
        ''Rollout completed'' [] empty_world) [''default'', ''guestbook'', [], ''RolloutCompleted''] = 1"
    by (simp add: eventf_counter example_deps_def completed_opts_def empty_world_def)
  have z: "counter empty_world [''default'', ''guestbook'', [], ''RolloutCompleted''] = 0"
    by (simp add: empty_world_def)
  have ne: "counter (eventf example_deps example_adapter ''guestbook'' False completed_opts
        ''Rollout completed'' [] empty_world) \<noteq> counter empty_world"
    using c z by (metis zero_neq_one)
  note a = eventf_empty_reason_only_logs
    [of "\<lparr>EventType = ''Normal'', EventReason = []\<rparr>" example_deps example_adapter "''guestbook''"
        False "''Reconciling''" "[]" empty_world]
  note b = eventf_empty_reason_only_logs
    [of completed_opts example_deps example_adapter "''guestbook''"
        False "''Rollout completed''" "[]" empty_world]
  have w: "WithObject example_deps ''guestbook'' = [''rollout'' \<mapsto> ''guestbook'', ''namespace'' \<mapsto> ''default'']"
    by (simp add: example_deps_def)
  have l: "logged empty_world = []" by (simp add: empty_world_def)
  show ?thesis using a b ne w l by simp
qed

subsection \<open>The reverse map\<close>

lemma reverseMap_loop_eq:
  "reverseMap_loop m n = n ++ map_of (rev (map (\<lambda>(k, v). (v, k)) m))"
proof (induction m arbitrary: n)
  case Nil
  show ?case by simp
next
  case (Cons a m)
  obtain k v where a: "a = (k, v)" by (cases a)
  have "n(v \<mapsto> k) ++ map_of (rev (map (\<lambda>(k, v). (v, k)) m))
        = n ++ (map_of [(v, k)] ++ map_of (rev (map (\<lambda>(k, v). (v, k)) m)))"
    by (auto simp: map_add_def fun_eq_iff split: option.splits)
  moreover have "reverseMap_loop (a # m) n = reverseMap_loop m (n(v \<mapsto> k))"
    by (simp only: a reverseMap_loop.simps)
  moreover have "map_of (rev (map (\<lambda>(k, v). (v, k)) (a # m)))
        = map_of [(v, k)] ++ map_of (rev (map (\<lambda>(k, v). (v, k)) m))"
    by (simp only: a list.map rev.simps map_of_append prod.case)
  ultimately show ?case by (simp only: Cons.IH)
qed

lemma reverseMap_iff:
  assumes "distinct (map snd m)"
  shows "reverseMap m v = Some k \<longleftrightarrow> (k, v) \<in> set m"
proof -
  have d: "distinct (map fst (rev (map (\<lambda>(k, v). (v, k)) m)))"
    using assms by (simp add: rev_map[symmetric] comp_def case_prod_beta)
  have "reverseMap m v = map_of (rev (map (\<lambda>(k, v). (v, k)) m)) v"
    by (simp add: reverseMap_def reverseMap_loop_eq)
  also have "\<dots> = Some k \<longleftrightarrow> (v, k) \<in> set (rev (map (\<lambda>(k, v). (v, k)) m))"
    using d by (rule map_of_eq_Some_iff)
  also have "\<dots> \<longleftrightarrow> (k, v) \<in> set m" by auto
  finally show ?thesis .
qed

lemma BuiltInTriggers_keys_distinct: "distinct (map fst (BuiltInTriggers c))"
  by (simp add: BuiltInTriggers_def)

lemma visit_order_values_distinct:
  assumes "distinct (map snd m)" and "distinct visit" and "set visit = set m"
  shows "distinct (map snd visit)"
proof -
  have "inj_on snd (set m)" using assms(1) by (simp add: distinct_map)
  then show ?thesis using assms(2,3) by (simp add: distinct_map)
qed

text \<open>
  Claim C10. \<open>EventReasonToTrigger\<close> is the exact inverse of \<open>BuiltInTriggers\<close>: every
  trigger name is found again under its reason, and every key of \<open>EventReasonToTrigger\<close>
  is the reason of the trigger stored under it. The four reasons are constants of another
  package; the built-in map is injective when they are pairwise distinct, and then the
  result of \<open>reverseMap\<close> is the same for every order in which \<open>range\<close> visits the entries.
\<close>

theorem EventReasonToTrigger_inverse:
  assumes inj: "distinct (map snd (BuiltInTriggers c))"
    and visit: "distinct visit \<and> set visit = set (BuiltInTriggers c)"
  shows "reverseMap visit = EventReasonToTrigger c
       \<and> (\<forall>t r. map_of (BuiltInTriggers c) t = Some r \<longrightarrow> EventReasonToTrigger c r = Some t)
       \<and> (\<forall>r t. EventReasonToTrigger c r = Some t \<longrightarrow> map_of (BuiltInTriggers c) t = Some r)"
proof -
  have dv: "distinct (map snd visit)"
    using visit_order_values_distinct[OF inj] visit by blast
  have rel: "EventReasonToTrigger c r = Some t \<longleftrightarrow> (t, r) \<in> set (BuiltInTriggers c)" for r t
    unfolding EventReasonToTrigger_def by (rule reverseMap_iff[OF inj])
  have relv: "reverseMap visit r = Some t \<longleftrightarrow> (t, r) \<in> set (BuiltInTriggers c)" for r t
    using reverseMap_iff[OF dv, of r t] visit by simp
  have fwd: "map_of (BuiltInTriggers c) t = Some r \<longleftrightarrow> (t, r) \<in> set (BuiltInTriggers c)" for r t
    by (rule map_of_eq_Some_iff[OF BuiltInTriggers_keys_distinct])
  have "reverseMap visit r = EventReasonToTrigger c r" for r
  proof (cases "EventReasonToTrigger c r")
    case None
    then have "\<forall>t. reverseMap visit r \<noteq> Some t" using rel[of r] relv[of r] by auto
    then show ?thesis using None by (cases "reverseMap visit r") auto
  next
    case (Some t)
    then show ?thesis using rel[of r t] relv[of r t] by simp
  qed
  then have "reverseMap visit = EventReasonToTrigger c" by (rule ext)
  then show ?thesis using rel fwd by simp
qed

theorem EventReasonToTrigger_inverse_witness:
  "distinct (map snd (BuiltInTriggers example_reasons))
   \<and> distinct (rev (BuiltInTriggers example_reasons))
   \<and> reverseMap (rev (BuiltInTriggers example_reasons)) = EventReasonToTrigger example_reasons
   \<and> EventReasonToTrigger example_reasons ''RolloutStepCompleted'' = Some ''on-step-completed''
   \<and> EventReasonToTrigger example_reasons ''on-update'' = None"
proof -
  have i: "distinct (map snd (BuiltInTriggers example_reasons))"
    by (simp add: BuiltInTriggers_def example_reasons_def)
  have v: "distinct (rev (BuiltInTriggers example_reasons))
           \<and> set (rev (BuiltInTriggers example_reasons)) = set (BuiltInTriggers example_reasons)"
    unfolding set_rev distinct_rev by (simp add: BuiltInTriggers_def example_reasons_def)
  have m: "map_of (BuiltInTriggers example_reasons) ''on-step-completed'' = Some ''RolloutStepCompleted''"
    by (simp add: BuiltInTriggers_def example_reasons_def)
  have n: "map_of (BuiltInTriggers example_reasons) t \<noteq> Some ''on-update''" for t
    by (simp add: BuiltInTriggers_def example_reasons_def)
  note th = EventReasonToTrigger_inverse[OF i v]
  have a: "reverseMap (rev (BuiltInTriggers example_reasons)) = EventReasonToTrigger example_reasons"
    using th by (rule conjunct1)
  have b: "EventReasonToTrigger example_reasons ''RolloutStepCompleted'' = Some ''on-step-completed''"
    using th m by blast
  have c: "EventReasonToTrigger example_reasons ''on-update'' = None"
  proof (cases "EventReasonToTrigger example_reasons ''on-update''")
    case None then show ?thesis .
  next
    case (Some t)
    then have "map_of (BuiltInTriggers example_reasons) t = Some ''on-update''" using th by blast
    then show ?thesis using n by blast
  qed
  show ?thesis using i v a b c by (simp only: simp_thms)
qed

subsection \<open>Notifications\<close>

lemma send_loop_frame:
  "send_loop api objMap tmpl dests w = (r, w') \<Longrightarrow>
     recorded w' = recorded w \<and> counter w' = counter w"
  by (induction dests arbitrary: w) (auto simp: logFn_def split: option.splits)

lemma send_loop_error_logged:
  "send_loop api objMap tmpl dests w = (Returned (Some (SendError msg)), w') \<Longrightarrow>
     logged w' = logged w @
       [\<lparr>ll_level = Error, ll_fields = Map.empty, ll_messageFmt = ''notification error: %s'',
         ll_args = [msg]\<rparr>]"
  by (induction dests arbitrary: w) (auto simp: logFn_def split: option.splits)

lemma sendNotifications_frame:
  assumes "sendNotifications c d e object opts w = (r, w')"
  shows "recorded w' = recorded w \<and> counter w' = counter w"
  using assms
  by (auto simp: sendNotifications_def Let_def dest: send_loop_frame
      split: option.splits sum.splits if_splits)

lemma sendNotifications_error_logged:
  assumes "sendNotifications c d e object opts w = (Returned (Some (SendError msg)), w')"
  shows "logged w' = logged w @
       [\<lparr>ll_level = Error, ll_fields = Map.empty, ll_messageFmt = ''notification error: %s'',
         ll_args = [msg]\<rparr>]"
  using assms
  by (auto simp: sendNotifications_def Let_def dest: send_loop_error_logged
      split: option.splits sum.splits if_splits)

lemma send_loop_first_failure:
  assumes "\<forall>x \<in> set delivered. Send api objMap tmpl x = None"
    and "Send api objMap tmpl dest = Some msg"
  shows "send_loop api objMap tmpl (delivered @ dest # rest) w =
     (Returned (Some (SendError msg)),
      w\<lparr>logged := logged w @
          [\<lparr>ll_level = Error, ll_fields = Map.empty,
            ll_messageFmt = ''notification error: %s'', ll_args = [msg]\<rparr>],
        sent := sent w @ map (\<lambda>x. (objMap, tmpl, x)) delivered\<rparr>)"
  using assms
proof (induction delivered arbitrary: w)
  case Nil
  then show ?case by (simp add: logFn_def)
next
  case (Cons x delivered)
  have "send_loop api objMap tmpl ((x # delivered) @ dest # rest) w =
        send_loop api objMap tmpl (delivered @ dest # rest) (w\<lparr>sent := sent w @ [(objMap, tmpl, x)]\<rparr>)"
    using Cons.prems(1) by simp
  also have "\<dots> = (Returned (Some (SendError msg)),
      (w\<lparr>sent := sent w @ [(objMap, tmpl, x)]\<rparr>)
       \<lparr>logged := logged (w\<lparr>sent := sent w @ [(objMap, tmpl, x)]\<rparr>) @
          [\<lparr>ll_level = Error, ll_fields = Map.empty,
            ll_messageFmt = ''notification error: %s'', ll_args = [msg]\<rparr>],
        sent := sent (w\<lparr>sent := sent w @ [(objMap, tmpl, x)]\<rparr>) @
                map (\<lambda>x. (objMap, tmpl, x)) delivered\<rparr>)"
    using Cons.prems by (intro Cons.IH) simp_all
  finally show ?case by simp
qed

lemma sendNotifications_frame_snd:
  "recorded (snd (sendNotifications c d e object opts w)) = recorded w
   \<and> counter (snd (sendNotifications c d e object opts w)) = counter w"
  using sendNotifications_frame [of c d e object opts w
      "fst (sendNotifications c d e object opts w)" "snd (sendNotifications c d e object opts w)"]
  by simp

text \<open>
  Claim C1, as amended. When a \<open>Send\<close> to a destination fails, after the destinations
  before it were served, \<open>sendNotifications\<close> logs the error at Error level and returns
  it; the destinations after it are not tried. A failure of \<open>GetAPI\<close>, of \<open>json.Marshal\<close>
  or of \<open>json.Unmarshal\<close> is returned without a log line. In every case the recorded
  events and the counter are left as they are. \<open>eventf\<close> neither calls
  \<open>sendNotifications\<close> nor reads the API factory and sends nothing, so on the world left
  by the failed send it still hands the event to the recorder and writes its log line.
\<close>

theorem send_failure_logged_and_non_fatal:
  assumes ann: "GetAnnotations d object = Some annotations"
    and trg: "EventReasonToTrigger c (EventReason opts) = Some trigger"
    and dst: "GetDestinations d annotations trigger = delivered @ dest # rest"
    and api: "apiFactory e = Some (Inr api)"
    and tpl: "templates_loop c (Triggers api) Map.empty = Some templates"
    and tmp: "tmpl = (case templates trigger of None \<Rightarrow> [] | Some t \<Rightarrow> t)"
    and mar: "Marshal d object = Inr objBytes"
    and unm: "Unmarshal d objBytes = Inr objMap"
    and oks: "\<forall>x \<in> set delivered. Send api objMap tmpl x = None"
    and bad: "Send api objMap tmpl dest = Some msg"
  shows "sendNotifications c d e object opts w =
           (Returned (Some (SendError msg)),
            w\<lparr>logged := logged w @
                [\<lparr>ll_level = Error, ll_fields = Map.empty,
                  ll_messageFmt = ''notification error: %s'', ll_args = [msg]\<rparr>],
              sent := sent w @ map (\<lambda>x. (objMap, tmpl, x)) delivered\<rparr>)
       \<and> recorded (eventf d e object warn opts messageFmt args
             (snd (sendNotifications c d e object opts w))) =
           recorded w @ (if EventReason opts = [] then []
                         else [\<lparr>ev_object = object, ev_type = EventType opts,
                                ev_reason = EventReason opts,
                                ev_messageFmt = messageFmt, ev_args = args\<rparr>])
       \<and> (\<exists>l. logged (eventf d e object warn opts messageFmt args
                  (snd (sendNotifications c d e object opts w))) =
               logged w @
                 [\<lparr>ll_level = Error, ll_fields = Map.empty,
                   ll_messageFmt = ''notification error: %s'', ll_args = [msg]\<rparr>, l]
               \<and> ll_level l = (if warn then Warn else Info)
               \<and> ll_messageFmt l = messageFmt \<and> ll_args l = args)
       \<and> (\<forall>f w0. eventf d (e\<lparr>apiFactory := f\<rparr>) object warn opts messageFmt args w0 =
                   eventf d e object warn opts messageFmt args w0
                 \<and> sent (eventf d e object warn opts messageFmt args w0) = sent w0)
       \<and> (\<forall>err. sendNotifications c d (e\<lparr>apiFactory := Some (Inl err)\<rparr>) object opts w =
                   (Returned (Some (GetAPIError err)), w))
       \<and> (\<forall>err. sendNotifications c (d\<lparr>Marshal := (\<lambda>x. Inl err)\<rparr>) e object opts w =
                   (Returned (Some (MarshalError err)), w))
       \<and> (\<forall>err. sendNotifications c (d\<lparr>Unmarshal := (\<lambda>x. Inl err)\<rparr>) e object opts w =
                   (Returned (Some (UnmarshalError err)), w))
       \<and> (\<forall>e' w0. recorded (snd (sendNotifications c d e' object opts w0)) = recorded w0
                 \<and> counter (snd (sendNotifications c d e' object opts w0)) = counter w0)"
proof -
  have ne: "length (delivered @ dest # rest) \<noteq> 0" by simp
  have loop: "send_loop api objMap tmpl (delivered @ dest # rest) w =
     (Returned (Some (SendError msg)),
      w\<lparr>logged := logged w @
          [\<lparr>ll_level = Error, ll_fields = Map.empty,
            ll_messageFmt = ''notification error: %s'', ll_args = [msg]\<rparr>],
        sent := sent w @ map (\<lambda>x. (objMap, tmpl, x)) delivered\<rparr>)"
    using oks bad by (rule send_loop_first_failure)
  have main: "sendNotifications c d e object opts w =
           (Returned (Some (SendError msg)),
            w\<lparr>logged := logged w @
                [\<lparr>ll_level = Error, ll_fields = Map.empty,
                  ll_messageFmt = ''notification error: %s'', ll_args = [msg]\<rparr>],
              sent := sent w @ map (\<lambda>x. (objMap, tmpl, x)) delivered\<rparr>)"
    unfolding sendNotifications_def Let_def
    using loop by (simp add: ann trg dst api tpl mar unm tmp [symmetric])
  have getapi: "sendNotifications c d (e\<lparr>apiFactory := Some (Inl err)\<rparr>) object opts w =
                   (Returned (Some (GetAPIError err)), w)" for err
    unfolding sendNotifications_def Let_def by (simp add: ann trg dst)
  have marshal: "sendNotifications c (d\<lparr>Marshal := (\<lambda>x. Inl err)\<rparr>) e object opts w =
                   (Returned (Some (MarshalError err)), w)" for err
    unfolding sendNotifications_def Let_def by (simp add: ann trg dst api tpl)
  have unmarshal: "sendNotifications c (d\<lparr>Unmarshal := (\<lambda>x. Inl err)\<rparr>) e object opts w =
                   (Returned (Some (UnmarshalError err)), w)" for err
    unfolding sendNotifications_def Let_def by (simp add: ann trg dst api tpl mar)
  have ind: "eventf d (e\<lparr>apiFactory := f\<rparr>) object warn opts messageFmt args w0 =
           eventf d e object warn opts messageFmt args w0" for f w0
    by (simp add: eventf_def)
  have snt: "sent (eventf d e object warn opts messageFmt args w0) = sent w0" for w0
    by (auto simp add: eventf_def logFn_def Recorder_Eventf_def Counter_Inc_def WithField_def
        Let_def split: prod.splits)
  show ?thesis
    using getapi marshal unmarshal ind snt
    by (simp add: main eventf_recorded eventf_logged sendNotifications_frame_snd)
qed

lemma example_trigger:
  "EventReasonToTrigger example_reasons ''RolloutCompleted'' = Some ''on-completed''"
  by (simp add: EventReasonToTrigger_def reverseMap_def BuiltInTriggers_def example_reasons_def)

lemma example_templates:
  "templates_loop example_reasons (Triggers flaky_api) Map.empty =
     Some [''on-completed'' \<mapsto> [''rollout-completed'']]"
  by (simp add: flaky_api_def BuiltInTriggers_def)

theorem send_failure_logged_and_non_fatal_witness:
  "GetDestinations example_deps
      [(''notifications.argoproj.io/subscribe.on-completed.slack'', ''dev'')] ''on-completed'' =
     [(''slack'', ''dev'')] @ (''slack'', ''ops'') # []
   \<and> Send flaky_api ''guestbook'' [''rollout-completed''] (''slack'', ''dev'') = None
   \<and> Send flaky_api ''guestbook'' [''rollout-completed''] (''slack'', ''ops'') = Some ''connection refused''
   \<and> sendNotifications example_reasons example_deps flaky_adapter ''guestbook''
        normal_completed_opts empty_world =
      (Returned (Some (SendError ''connection refused'')),
       empty_world\<lparr>logged := [\<lparr>ll_level = Error, ll_fields = Map.empty,
          ll_messageFmt = ''notification error: %s'', ll_args = [''connection refused'']\<rparr>],
        sent := [(''guestbook'', [''rollout-completed''], (''slack'', ''dev''))]\<rparr>)
   \<and> recorded (eventf example_deps flaky_adapter ''guestbook'' False normal_completed_opts
        ''Rollout completed'' []
        (snd (sendNotifications example_reasons example_deps flaky_adapter ''guestbook''
           normal_completed_opts empty_world))) =
      [\<lparr>ev_object = ''guestbook'', ev_type = ''Normal'', ev_reason = ''RolloutCompleted'',
        ev_messageFmt = ''Rollout completed'', ev_args = []\<rparr>]
   \<and> sendNotifications example_reasons example_deps
        (flaky_adapter\<lparr>apiFactory := Some (Inl ''configmap not found'')\<rparr>) ''guestbook''
        normal_completed_opts empty_world =
      (Returned (Some (GetAPIError ''configmap not found'')), empty_world)"
proof -
  have ann: "GetAnnotations example_deps ''guestbook'' =
      Some [(''notifications.argoproj.io/subscribe.on-completed.slack'', ''dev'')]"
    by (simp add: example_deps_def)
  have trg: "EventReasonToTrigger example_reasons (EventReason normal_completed_opts) =
      Some ''on-completed''"
    by (simp add: normal_completed_opts_def example_trigger)
  have dst: "GetDestinations example_deps
      [(''notifications.argoproj.io/subscribe.on-completed.slack'', ''dev'')] ''on-completed'' =
     [(''slack'', ''dev'')] @ (''slack'', ''ops'') # []"
    by (simp add: example_deps_def)
  have api: "apiFactory flaky_adapter = Some (Inr flaky_api)"
    by (simp add: flaky_adapter_def)
  have tmp: "[''rollout-completed''] =
      (case [''on-completed'' \<mapsto> [''rollout-completed'']] ''on-completed'' of
         None \<Rightarrow> [] | Some t \<Rightarrow> t)"
    by simp
  have mar: "Marshal example_deps ''guestbook'' = Inr ''guestbook''"
    by (simp add: example_deps_def)
  have unm: "Unmarshal example_deps ''guestbook'' = Inr ''guestbook''"
    by (simp add: example_deps_def)
  have oks: "\<forall>x \<in> set [(''slack'', ''dev'')].
      Send flaky_api ''guestbook'' [''rollout-completed''] x = None"
    by (simp add: flaky_api_def)
  have bad: "Send flaky_api ''guestbook'' [''rollout-completed''] (''slack'', ''ops'') =
      Some ''connection refused''"
    by (simp add: flaky_api_def)
  note th = send_failure_logged_and_non_fatal
    [OF ann trg dst api example_templates tmp mar unm oks bad,
     where warn = False and messageFmt = "''Rollout completed''" and args = "[]"
       and w = empty_world]
  have r: "EventReason normal_completed_opts = ''RolloutCompleted''"
    "EventType normal_completed_opts = ''Normal''"
    by (simp_all add: normal_completed_opts_def)
  have l: "logged empty_world = []" "recorded empty_world = []" "sent empty_world = []"
    by (simp_all add: empty_world_def)
  have c1: "sendNotifications example_reasons example_deps flaky_adapter ''guestbook''
        normal_completed_opts empty_world =
      (Returned (Some (SendError ''connection refused'')),
       empty_world\<lparr>logged := [\<lparr>ll_level = Error, ll_fields = Map.empty,
          ll_messageFmt = ''notification error: %s'', ll_args = [''connection refused'']\<rparr>],
        sent := [(''guestbook'', [''rollout-completed''], (''slack'', ''dev''))]\<rparr>)"
    using th [THEN conjunct1] l by simp
  have c2: "recorded (eventf example_deps flaky_adapter ''guestbook'' False normal_completed_opts
        ''Rollout completed'' []
        (snd (sendNotifications example_reasons example_deps flaky_adapter ''guestbook''
           normal_completed_opts empty_world))) =
      [\<lparr>ev_object = ''guestbook'', ev_type = ''Normal'', ev_reason = ''RolloutCompleted'',
        ev_messageFmt = ''Rollout completed'', ev_args = []\<rparr>]"
    using th [THEN conjunct2, THEN conjunct1] r l by simp
  have c3: "sendNotifications example_reasons example_deps
        (flaky_adapter\<lparr>apiFactory := Some (Inl ''configmap not found'')\<rparr>) ''guestbook''
        normal_completed_opts empty_world =
      (Returned (Some (GetAPIError ''configmap not found'')), empty_world)"
    using th by blast
  have ok1: "Send flaky_api ''guestbook'' [''rollout-completed''] (''slack'', ''dev'') = None"
    by (simp add: flaky_api_def)
  show ?thesis using dst ok1 bad c1 c2 c3 by (simp only: simp_thms)
qed

text \<open>
  The statement that \<open>sendNotifications\<close> logs the error of every failed delivery
  does not hold: with a subscribed destination and a factory whose \<open>GetAPI\<close>
  fails, the error is returned and nothing is logged.
\<close>

theorem delivery_failure_logged_counterexample:
  "sendNotifications example_reasons example_deps
     \<lparr>apiFactory = Some (Inl ''configmap not found'')\<rparr> ''guestbook''
     normal_completed_opts empty_world =
   (Returned (Some (GetAPIError ''configmap not found'')), empty_world)
   \<and> GetDestinations example_deps
       [(''notifications.argoproj.io/subscribe.on-completed.slack'', ''dev'')] ''on-completed'' \<noteq> []
   \<and> logged empty_world = []"
  by (simp add: sendNotifications_def example_trigger example_deps_def
      normal_completed_opts_def empty_world_def)

section \<open>Properties of the reconciliation core\<close>

lemma ceiling_percent: "\<lceil>real_of_int k / 100\<rceil> = (k + 99) div 100"
proof -
  have "\<lceil>real_of_int k / real_of_int 100\<rceil> = - (- k div 100)"
    by (rule ceiling_divide_eq_div)
  then show ?thesis by simp
qed

text \<open>
  Claim C3. For every non-negative \<open>totalReplicas\<close> and every \<open>desiredWeight\<close> in
  [0,100], \<open>reconcileReplicaCounts\<close> yields canaryCount = ceil(totalReplicas *
  desiredWeight / 100) and stableCount = totalReplicas - canaryCount. The canary count is
  the integer (totalReplicas * desiredWeight + 99) div 100, it lies between 0 and
  totalReplicas, and the stable count is not negative. For totalReplicas = 5 and
  desiredWeight = 20 the counts are 1 canary and 4 stable.
\<close>

theorem reconcileReplicaCounts_formula:
  assumes "0 \<le> totalReplicas" and "0 \<le> desiredWeight \<and> desiredWeight \<le> 100"
  shows "reconcileReplicaCounts stableRef canaryRef desiredWeight totalReplicas =
           (totalReplicas - \<lceil>real_of_int totalReplicas * real_of_int desiredWeight / 100\<rceil>,
            \<lceil>real_of_int totalReplicas * real_of_int desiredWeight / 100\<rceil>)
       \<and> snd (reconcileReplicaCounts stableRef canaryRef desiredWeight totalReplicas) =
           (totalReplicas * desiredWeight + 99) div 100
       \<and> 0 \<le> snd (reconcileReplicaCounts stableRef canaryRef desiredWeight totalReplicas)
       \<and> snd (reconcileReplicaCounts stableRef canaryRef desiredWeight totalReplicas) \<le> totalReplicas
       \<and> 0 \<le> fst (reconcileReplicaCounts stableRef canaryRef desiredWeight totalReplicas)
       \<and> reconcileReplicaCounts stableRef canaryRef 20 5 = (4, 1)"
proof -
  let ?c = "(totalReplicas * desiredWeight + 99) div 100"
  have c: "snd (reconcileReplicaCounts stableRef canaryRef desiredWeight totalReplicas) = ?c"
    by (simp add: reconcileReplicaCounts_def Let_def ceiling_percent del: of_int_mult)
  have f: "fst (reconcileReplicaCounts stableRef canaryRef desiredWeight totalReplicas) = totalReplicas - ?c"
    by (simp add: reconcileReplicaCounts_def Let_def ceiling_percent del: of_int_mult)
  have nn: "0 \<le> totalReplicas * desiredWeight" using assms by simp
  have le: "totalReplicas * desiredWeight \<le> totalReplicas * 100"
    using assms by (simp add: mult_left_mono)
  have lo: "0 \<le> ?c" using nn by (simp add: pos_imp_zdiv_nonneg_iff)
  have "?c \<le> (totalReplicas * 100 + 99) div 100" using le by (simp add: zdiv_mono1)
  also have "\<dots> = totalReplicas" by simp
  finally have hi: "?c \<le> totalReplicas" .
  have ex: "reconcileReplicaCounts stableRef canaryRef 20 5 = (4, 1)"
    by (simp add: reconcileReplicaCounts_def Let_def)
  have eq: "reconcileReplicaCounts stableRef canaryRef desiredWeight totalReplicas =
           (totalReplicas - \<lceil>real_of_int totalReplicas * real_of_int desiredWeight / 100\<rceil>,
            \<lceil>real_of_int totalReplicas * real_of_int desiredWeight / 100\<rceil>)"
    by (simp add: reconcileReplicaCounts_def Let_def)
  show ?thesis using c f lo hi ex eq by simp
qed

theorem reconcileReplicaCounts_formula_witness:
  "(0::int) \<le> spec_replicas rollout_ref_deployment \<and> (0::int) \<le> 20 \<and> (20::int) \<le> 100
   \<and> reconcileReplicaCounts (stableRS example_status) (canaryRS example_status) 20
        (spec_replicas rollout_ref_deployment) = (4, 1)"
proof -
  have r: "spec_replicas rollout_ref_deployment = 5" by (simp add: rollout_ref_deployment_def)
  have a: "(0::int) \<le> 5" by simp
  have b: "(0::int) \<le> 20 \<and> (20::int) \<le> 100" by simp
  from reconcileReplicaCounts_formula [OF a b, of "stableRS example_status" "canaryRS example_status"]
  show ?thesis using r by simp
qed

text \<open>
  Claim C4. In a status snapshot whose step has fully converged, so that the
  ReplicaSetManager confirms that the replica counts match the weight, the replica counts
  of the stable and the canary replica set add up to \<open>spec.replicas\<close>.
\<close>

theorem steady_state_replica_sum:
  assumes "replicaCountsMatch spec st"
  shows "rs_replicas (stableRS st) + rs_replicas (canaryRS st) = spec_replicas spec"
  using assms by (simp add: replicaCountsMatch_def reconcileReplicaCounts_def Let_def)

theorem steady_state_replica_sum_witness:
  "replicaCountsMatch rollout_ref_deployment example_status
   \<and> rs_replicas (stableRS example_status) + rs_replicas (canaryRS example_status) = 5"
proof -
  have m: "replicaCountsMatch rollout_ref_deployment example_status"
    by (simp add: replicaCountsMatch_def reconcileReplicaCounts_def Let_def
        rollout_ref_deployment_def example_status_def)
  from steady_state_replica_sum [OF m] m show ?thesis
    by (simp add: rollout_ref_deployment_def)
qed

text \<open>
  Claim C2. A rollout spec whose strategy kind is unknown (neither canary nor blueGreen)
  is rejected with a ValidationError, and the persisted status is the prior one, whatever
  the StrategyEngine would have computed: the spec never reaches it.
\<close>

theorem unknown_strategy_rejected:
  assumes "spec_strategy spec \<noteq> ''canary''" and "spec_strategy spec \<noteq> ''blueGreen''"
  shows "\<exists>msg. Reconciler StrategyEngine spec status = (Some (ValidationError msg), status)"
  using assms by (simp add: Reconciler_def validateRollout_def)

theorem unknown_strategy_rejected_witness:
  "spec_strategy invalid_rollout \<noteq> ''canary'' \<and> spec_strategy invalid_rollout \<noteq> ''blueGreen''
   \<and> snd (Reconciler (\<lambda>spec st. st\<lparr>currentStepIndex := 7\<rparr>) invalid_rollout example_status)
       = example_status
   \<and> fst (Reconciler (\<lambda>spec st. st\<lparr>currentStepIndex := 7\<rparr>) invalid_rollout example_status)
       \<noteq> None"
proof -
  have a: "spec_strategy invalid_rollout \<noteq> ''canary''" by (simp add: invalid_rollout_def)
  have b: "spec_strategy invalid_rollout \<noteq> ''blueGreen''" by (simp add: invalid_rollout_def)
  from unknown_strategy_rejected [OF a b, of "\<lambda>spec st. st\<lparr>currentStepIndex := 7\<rparr>" example_status]
  obtain msg where "Reconciler (\<lambda>spec st. st\<lparr>currentStepIndex := 7\<rparr>) invalid_rollout example_status
      = (Some (ValidationError msg), example_status)" ..
  then show ?thesis using a b by simp
qed

lemma reconcileWeights_lastApplied:
  "currentStepWeight (reconcileWeights calls status) = lastApplied (currentStepWeight status) calls"
  by (induction calls status rule: reconcileWeights.induct)
     (simp_all add: reconcileWeight_def converge_def)

text \<open>
  Claim C6. After any run of reconciles the weight recorded in the status is the weight
  last successfully applied to the traffic-routing capability. When \<open>converge\<close> returns
  false the status is left as it is and a requeue is requested; the recorded weight moves
  only when the apply has succeeded.
\<close>

theorem status_weight_is_last_applied:
  "currentStepWeight (reconcileWeights calls status) = lastApplied (currentStepWeight status) calls
   \<and> (\<not> converge (currentStepWeight status) desiredWeight routing \<longrightarrow>
        reconcileWeight routing desiredWeight status = (status, True))
   \<and> (converge (currentStepWeight status) desiredWeight routing \<longrightarrow>
        reconcileWeight routing desiredWeight status =
          (status\<lparr>currentStepWeight := desiredWeight\<rparr>, False))"
  by (simp add: reconcileWeights_lastApplied reconcileWeight_def)

theorem status_weight_is_last_applied_witness:
  "currentStepWeight (reconcileWeights
      [(\<lambda>p. Success, 40), (\<lambda>p. Pending, 60), (\<lambda>p. Failure, 80)] example_status) = 40
   \<and> \<not> converge 20 60 (\<lambda>p. Pending)
   \<and> reconcileWeight (\<lambda>p. Pending) 60 example_status = (example_status, True)
   \<and> converge 20 40 (\<lambda>p. Success)
   \<and> fst (reconcileWeight (\<lambda>p. Success) 40 example_status) =
       example_status\<lparr>currentStepWeight := 40\<rparr>"
proof -
  have w: "currentStepWeight example_status = 20" by (simp add: example_status_def)
  have n: "\<not> converge 20 60 (\<lambda>p. Pending)" by (simp add: converge_def)
  have y: "converge 20 40 (\<lambda>p. Success)" by (simp add: converge_def)
  note a = status_weight_is_last_applied
    [of "[(\<lambda>p. Success, 40), (\<lambda>p. Pending, 60), (\<lambda>p. Failure, 80)]" example_status 60 "\<lambda>p. Pending"]
  note b = status_weight_is_last_applied
    [of "[]" example_status 40 "\<lambda>p. Success"]
  show ?thesis using a b w n y by simp
qed

end
